theory Spec2Isabelle
  imports Main
begin

section \<open>The parsed page\<close>

text \<open>
  \<^verbatim>\<open>analyze_form_fields\<close> of \<^verbatim>\<open>main.py\<close> hands the page text to the library class
  \<^verbatim>\<open>BeautifulSoup\<close> and from then on only uses three operations of the parse tree:
  \<^verbatim>\<open>find_all(name)\<close>, \<^verbatim>\<open>get(key, default)\<close> and \<^verbatim>\<open>has_attr(key)\<close>.
  A tree node is a tag (its name, its attribute dictionary, its children) or a piece of
  text. The attribute dictionary is a map: the parser keeps one value for each attribute
  name, and an attribute written without a value has the value \<open>''''\<close>.
\<close>

text \<open>
  A Python \<^verbatim>\<open>str\<close> is a sequence of Unicode code points, so a string of the model is a
  list of natural numbers. The string literals of the program are ASCII; \<open>ustr ''abc''\<close>
  is the list of the code points of the literal \<open>''abc''\<close>.
\<close>

type_synonym str = "nat list"

abbreviation ustr :: "string \<Rightarrow> str" where
  "ustr s \<equiv> map of_char s"

datatype node = Tag str "str \<rightharpoonup> str" "node list" | NavigableString str

fun descendants :: "node \<Rightarrow> node list" where
  "descendants (NavigableString s) = []"
| "descendants (Tag n a cs) = concat (map (\<lambda>c. c # descendants c) cs)"

fun has_name :: "str \<Rightarrow> node \<Rightarrow> bool" where
  "has_name nm (Tag n a cs) = (n = nm)"
| "has_name nm (NavigableString s) = False"

text \<open>\<^verbatim>\<open>find_all(name)\<close>: the tags of that name below the node, in document order.\<close>

definition find_all :: "str \<Rightarrow> node \<Rightarrow> node list" where
  "find_all nm nd = filter (has_name nm) (descendants nd)"

fun attrs :: "node \<Rightarrow> (str \<rightharpoonup> str)" where
  "attrs (Tag n a cs) = a"
| "attrs (NavigableString s) = Map.empty"

text \<open>\<^verbatim>\<open>tag.get(key, default)\<close> and \<^verbatim>\<open>tag.has_attr(key)\<close>.\<close>

definition get :: "node \<Rightarrow> str \<Rightarrow> str \<Rightarrow> str" where
  "get tag key dflt = (case attrs tag key of None \<Rightarrow> dflt | Some v \<Rightarrow> v)"

definition has_attr :: "node \<Rightarrow> str \<Rightarrow> bool" where
  "has_attr tag key = (attrs tag key \<noteq> None)"

section \<open>Logging\<close>

text \<open>
  The module configures the root logger at level INFO (DEBUG with \<^verbatim>\<open>--verbose\<close>), so
  every warning is emitted. The log is the list of the records emitted so far.
\<close>

datatype level = DEBUG | INFO | WARNING | ERROR

type_synonym log = "(level \<times> str) list"

definition warning :: "str \<Rightarrow> log \<Rightarrow> log" where
  "warning msg lg = lg @ [(WARNING, msg)]"

section \<open>The two library predicates on strings\<close>

text \<open>
  The only pattern of the program is \<^verbatim>\<open>[^@]+@[^@]+\.[^@]+\<close>: a sequence of literal
  characters and of negated one-character classes under \<open>+\<close>. \<open>match_here\<close> is the
  backtracking matcher for such a sequence, started at the head of the string; a negated
  class has no exception for the newline or for any other code point.
\<close>

datatype re_item = Lit nat | NotCharPlus nat

fun match_here :: "re_item list \<Rightarrow> str \<Rightarrow> bool" where
  "match_here [] s = True"
| "match_here (Lit c # r) [] = False"
| "match_here (Lit c # r) (x # xs) = (x = c \<and> match_here r xs)"
| "match_here (NotCharPlus c # r) [] = False"
| "match_here (NotCharPlus c # r) (x # xs) =
     (x \<noteq> c \<and> (match_here (NotCharPlus c # r) xs \<or> match_here r xs))"

text \<open>
  \<^verbatim>\<open>re.match(pattern, string)\<close> looks for a match that starts at position 0 (and may end
  anywhere); the program only tests whether there is one.
\<close>

definition re_match :: "re_item list \<Rightarrow> str \<Rightarrow> bool" where
  "re_match pat s = match_here pat s"

definition email_pattern :: "re_item list" where
  "email_pattern =
     [NotCharPlus (of_char (CHR ''@'')), Lit (of_char (CHR ''@'')), NotCharPlus (of_char (CHR ''@'')), Lit (of_char (CHR ''.'')),
      NotCharPlus (of_char (CHR ''@''))]"

text \<open>
  \<^verbatim>\<open>str.isdigit()\<close> is true when the string has at least one character and all its
  characters are digits. The library documents a digit as a character with the property
  value Numeric_Type=Decimal or Numeric_Type=Digit. The characters with Numeric_Type=Decimal
  are those that \<^verbatim>\<open>str.isdecimal()\<close> accepts: the decimal digits of every script, in
  ranges of code points that start with \<open>0\<close> to \<open>9\<close>. The characters with
  Numeric_Type=Digit are the superscript and subscript digits, the circled and
  parenthesised digits and a few others. Both tables are those of Unicode 14.0.0.
\<close>

definition in_ranges :: "nat \<Rightarrow> (nat \<times> nat) list \<Rightarrow> bool" where
  "in_ranges n rs = list_ex (\<lambda>(lo, hi). lo \<le> n \<and> n \<le> hi) rs"

definition decimal_ranges :: "(nat \<times> nat) list" where
  "decimal_ranges =
     [(0x30, 0x39), (0x660, 0x669), (0x6F0, 0x6F9), (0x7C0, 0x7C9), (0x966, 0x96F),
      (0x9E6, 0x9EF), (0xA66, 0xA6F), (0xAE6, 0xAEF), (0xB66, 0xB6F), (0xBE6, 0xBEF),
      (0xC66, 0xC6F), (0xCE6, 0xCEF), (0xD66, 0xD6F), (0xDE6, 0xDEF), (0xE50, 0xE59),
      (0xED0, 0xED9), (0xF20, 0xF29), (0x1040, 0x1049), (0x1090, 0x1099), (0x17E0, 0x17E9),
      (0x1810, 0x1819), (0x1946, 0x194F), (0x19D0, 0x19D9), (0x1A80, 0x1A89), (0x1A90, 0x1A99),
      (0x1B50, 0x1B59), (0x1BB0, 0x1BB9), (0x1C40, 0x1C49), (0x1C50, 0x1C59), (0xA620, 0xA629),
      (0xA8D0, 0xA8D9), (0xA900, 0xA909), (0xA9D0, 0xA9D9), (0xA9F0, 0xA9F9), (0xAA50, 0xAA59),
      (0xABF0, 0xABF9), (0xFF10, 0xFF19), (0x104A0, 0x104A9), (0x10D30, 0x10D39),
      (0x11066, 0x1106F), (0x110F0, 0x110F9), (0x11136, 0x1113F), (0x111D0, 0x111D9),
      (0x112F0, 0x112F9), (0x11450, 0x11459), (0x114D0, 0x114D9), (0x11650, 0x11659),
      (0x116C0, 0x116C9), (0x11730, 0x11739), (0x118E0, 0x118E9), (0x11950, 0x11959),
      (0x11C50, 0x11C59), (0x11D50, 0x11D59), (0x11DA0, 0x11DA9), (0x16A60, 0x16A69),
      (0x16AC0, 0x16AC9), (0x16B50, 0x16B59), (0x1D7CE, 0x1D7FF), (0x1E140, 0x1E149),
      (0x1E2F0, 0x1E2F9), (0x1E950, 0x1E959), (0x1FBF0, 0x1FBF9)]"

definition other_digit_ranges :: "(nat \<times> nat) list" where
  "other_digit_ranges =
     [(0xB2, 0xB3), (0xB9, 0xB9), (0x1369, 0x1371), (0x19DA, 0x19DA), (0x2070, 0x2070),
      (0x2074, 0x2079), (0x2080, 0x2089), (0x2460, 0x2468), (0x2474, 0x247C), (0x2488, 0x2490),
      (0x24EA, 0x24EA), (0x24F5, 0x24FD), (0x24FF, 0x24FF), (0x2776, 0x277E), (0x2780, 0x2788),
      (0x278A, 0x2792), (0x10A40, 0x10A43), (0x10E60, 0x10E68), (0x11052, 0x1105A),
      (0x1F100, 0x1F10A)]"

definition isdecimal_char :: "nat \<Rightarrow> bool" where
  "isdecimal_char c = in_ranges c decimal_ranges"

definition isdigit_char :: "nat \<Rightarrow> bool" where
  "isdigit_char c = (isdecimal_char c \<or> in_ranges c other_digit_ranges)"

definition isdigit :: "str \<Rightarrow> bool" where
  "isdigit s = (s \<noteq> [] \<and> list_all isdigit_char s)"

section \<open>The analysis of one input tag\<close>

record field_data =
  fd_name :: str
  fd_type :: str
  fd_autocomplete :: str
  fd_required :: bool
  fd_readonly :: bool
  fd_disabled :: bool
  fd_value :: str
  fd_placeholder :: str
  vulnerabilities :: "str list"

text \<open>The dictionary literal that opens the loop body.\<close>

definition make_field_data :: "node \<Rightarrow> field_data" where
  "make_field_data input_field =
     \<lparr> fd_name = get input_field (ustr ''name'') (ustr ''N/A''),
       fd_type = get input_field (ustr ''type'') (ustr ''text''),
       fd_autocomplete = get input_field (ustr ''autocomplete'') (ustr ''off''),
       fd_required = has_attr input_field (ustr ''required''),
       fd_readonly = has_attr input_field (ustr ''readonly''),
       fd_disabled = has_attr input_field (ustr ''disabled''),
       fd_value = get input_field (ustr ''value'') (ustr ''N/A''),
       fd_placeholder = get input_field (ustr ''placeholder'') (ustr ''N/A''),
       vulnerabilities = [] \<rparr>"

definition append_vulnerability :: "str \<Rightarrow> field_data \<Rightarrow> field_data" where
  "append_vulnerability msg fd = fd\<lparr>vulnerabilities := vulnerabilities fd @ [msg]\<rparr>"

text \<open>The \<^verbatim>\<open>if\<close>/\<^verbatim>\<open>elif\<close> on missing input validation.\<close>

definition check_validation :: "field_data \<Rightarrow> field_data" where
  "check_validation fd =
     (if fd_type fd = ustr ''email'' \<and> fd_value fd \<noteq> ustr ''N/A''
         \<and> \<not> re_match email_pattern (fd_value fd)
      then append_vulnerability (ustr ''Potential missing email validation.'') fd
      else if fd_type fd \<in> {ustr ''number'', ustr ''tel''} \<and> fd_value fd \<noteq> ustr ''N/A''
         \<and> \<not> isdigit (fd_value fd)
      then append_vulnerability (ustr ''Potential missing numerical validation.'') fd
      else fd)"

text \<open>The check for autocomplete on sensitive fields; the message is an f-string.\<close>

definition check_autocomplete :: "field_data \<Rightarrow> field_data" where
  "check_autocomplete fd =
     (if fd_type fd \<in> {ustr ''password'', ustr ''credit-card'', ustr ''cvv''} \<and> fd_autocomplete fd \<noteq> (ustr ''off'')
      then append_vulnerability
             (ustr ''Autocomplete is enabled for sensitive field of type '' @ ustr [CHR 0x27] @ fd_type fd
                @ ustr [CHR 0x27] @ ustr ''.  This is generally discouraged'') fd
      else fd)"

text \<open>The check for a missing \<^verbatim>\<open>required\<close> attribute.\<close>

definition check_required :: "field_data \<Rightarrow> field_data" where
  "check_required fd =
     (if fd_type fd \<notin> {ustr ''hidden'', ustr ''submit'', ustr ''button''} \<and> \<not> fd_required fd
      then append_vulnerability
             (ustr ''Missing 'required' attribute. Consider adding for important fields'') fd
      else fd)"

text \<open>The record that one pass of the loop body appends to the results.\<close>

definition analyze_field :: "node \<Rightarrow> field_data" where
  "analyze_field input_field =
     check_required (check_autocomplete (check_validation (make_field_data input_field)))"

text \<open>One pass of the loop body: the record, and the warning when it has findings.\<close>

definition analyze_input :: "str \<Rightarrow> node \<Rightarrow> field_data list \<times> log \<Rightarrow> field_data list \<times> log" where
  "analyze_input url input_field st =
     (let fd = analyze_field input_field;
          lg = (if vulnerabilities fd \<noteq> []
                then warning (ustr ''Potential vulnerabilities found in field '' @ ustr [CHR 0x27]
                        @ fd_name fd @ ustr [CHR 0x27] @ ustr '' on '' @ url) (snd st)
                else snd st)
      in (fst st @ [fd], lg))"

section \<open>The two loops and the function\<close>

fun inputs_loop :: "str \<Rightarrow> node list \<Rightarrow> field_data list \<times> log \<Rightarrow> field_data list \<times> log" where
  "inputs_loop url [] st = st"
| "inputs_loop url (input_field # rest) st = inputs_loop url rest (analyze_input url input_field st)"

fun forms_loop :: "str \<Rightarrow> node list \<Rightarrow> field_data list \<times> log \<Rightarrow> field_data list \<times> log" where
  "forms_loop url [] st = st"
| "forms_loop url (form # rest) st =
     forms_loop url rest (inputs_loop url (find_all (ustr ''input'') form) st)"

text \<open>
  \<open>analyze_form_fields\<close> with the library parser as its first argument and the log
  threaded through: it returns the results and the log after the call.
\<close>

definition analyze_form_fields ::
    "(str \<Rightarrow> node) \<Rightarrow> str \<Rightarrow> str \<Rightarrow> log \<Rightarrow> field_data list \<times> log" where
  "analyze_form_fields BeautifulSoup html_content url lg =
     (let soup = BeautifulSoup html_content;
          forms = find_all (ustr ''form'') soup;
          results = []
      in if forms = [] then (results, warning (ustr ''No forms found on '' @ url) lg)
         else forms_loop url forms (results, lg))"

section \<open>The reading of the two format checks in the specification\<close>

text \<open>
  The specification describes the email check as an unanchored substring match: the pattern
  may match at any position of the value. \<open>re_search\<close> follows these words; it is
  compared with \<open>re_match\<close> below.
\<close>

definition re_search :: "re_item list \<Rightarrow> str \<Rightarrow> bool" where
  "re_search pat s = list_ex (\<lambda>i. match_here pat (drop i s)) [0..<Suc (length s)]"

text \<open>
  The specification describes the numeric check as "composed entirely of decimal digit
  characters", the empty string not counting. \<open>all_decimal_digits\<close> follows these
  words, with the decimal digits of every script (a value of the digits \<open>0\<close> to \<open>9\<close>
  is one case); it is compared with \<open>isdigit\<close> below.
\<close>

definition all_decimal_digits :: "str \<Rightarrow> bool" where
  "all_decimal_digits s = (s \<noteq> [] \<and> list_all isdecimal_char s)"

section \<open>Input tags used as examples\<close>

text \<open>
  \<^verbatim>\<open><input type="email" value="@a@b.c">\<close>: the pattern matches inside the value, from
  position 1, and not at position 0.
\<close>

definition at_sign_first :: node where
  "at_sign_first = Tag (ustr ''input'') [ustr ''type'' \<mapsto> ustr ''email'', ustr ''value'' \<mapsto> ustr ''@a@b.c''] []"

text \<open>
  An input of type \<open>number\<close> whose value is the one character superscript two (code
  point 178).
\<close>

definition superscript_two :: node where
  "superscript_two = Tag (ustr ''input'') [ustr ''type'' \<mapsto> ustr ''number'', ustr ''value'' \<mapsto> [0xB2]] []"

text \<open>
  Three inputs for the numeric check: type \<open>number\<close> with the empty value, type
  \<open>tel\<close> with a value of the digits \<open>0\<close> to \<open>9\<close>, and type \<open>number\<close> with the
  value of two decimal digits of other scripts, the Arabic-Indic digit three and the
  fullwidth digit one.
\<close>

definition empty_number :: node where
  "empty_number = Tag (ustr ''input'') [ustr ''type'' \<mapsto> ustr ''number'', ustr ''value'' \<mapsto> []] []"

definition digits_tel :: node where
  "digits_tel = Tag (ustr ''input'') [ustr ''type'' \<mapsto> ustr ''tel'', ustr ''value'' \<mapsto> ustr ''0123''] []"

definition arabic_fullwidth :: node where
  "arabic_fullwidth =
     Tag (ustr ''input'') [ustr ''type'' \<mapsto> ustr ''number'', ustr ''value'' \<mapsto> [0x663, 0xFF11]] []"




text \<open>
  A page without a form (its input is outside any form), and a page whose form holds one
  hidden input with a value and with autocomplete \<open>on\<close>.
\<close>

definition page_without_form :: node where
  "page_without_form =
     Tag (ustr ''[document]'') Map.empty
       [Tag (ustr ''p'') Map.empty [NavigableString (ustr ''hello''), Tag (ustr ''input'') [ustr ''type'' \<mapsto> ustr ''email''] []]]"

definition hidden_page :: node where
  "hidden_page =
     Tag (ustr ''[document]'') Map.empty
       [Tag (ustr ''form'') Map.empty
          [Tag (ustr ''input'') [ustr ''type'' \<mapsto> ustr ''hidden'', ustr ''value'' \<mapsto> ustr ''x'', ustr ''autocomplete'' \<mapsto> ustr ''on''] []]]"

text \<open>
  Two email inputs that differ only in \<open>name\<close>, \<open>placeholder\<close>, \<open>readonly\<close> and
  \<open>disabled\<close>.
\<close>

definition plain_email :: node where
  "plain_email = Tag (ustr ''input'') [ustr ''type'' \<mapsto> ustr ''email'', ustr ''value'' \<mapsto> ustr ''bad-email'', ustr ''name'' \<mapsto> ustr ''a''] []"

definition decorated_email :: node where
  "decorated_email =
     Tag (ustr ''input'') [ustr ''type'' \<mapsto> ustr ''email'', ustr ''value'' \<mapsto> ustr ''bad-email'', ustr ''name'' \<mapsto> ustr ''b'',
       ustr ''placeholder'' \<mapsto> ustr ''you@example.org'', ustr ''readonly'' \<mapsto> [], ustr ''disabled'' \<mapsto> []] []"

section \<open>Properties of the matcher\<close>

lemma match_here_Lit:
  "match_here (Lit c # r) s = (\<exists>t. s = c # t \<and> match_here r t)"
  by (cases s) auto

lemma match_here_NotCharPlus:
  "match_here (NotCharPlus c # r) s =
     (\<exists>u t. s = u @ t \<and> u \<noteq> [] \<and> c \<notin> set u \<and> match_here r t)"
proof (induction s)
  case Nil
  then show ?case by simp
next
  case (Cons x xs)
  show ?case
  proof
    assume m: "match_here (NotCharPlus c # r) (x # xs)"
    then have x: "x \<noteq> c" by simp
    from m consider "match_here (NotCharPlus c # r) xs" | "match_here r xs" by auto
    then show "\<exists>u t. x # xs = u @ t \<and> u \<noteq> [] \<and> c \<notin> set u \<and> match_here r t"
    proof cases
      case 1
      with Cons.IH obtain u t where "xs = u @ t" "c \<notin> set u" "match_here r t" by blast
      with x have "x # xs = (x # u) @ t \<and> x # u \<noteq> [] \<and> c \<notin> set (x # u) \<and> match_here r t"
        by auto
      then show ?thesis by blast
    next
      case 2
      with x have "x # xs = [x] @ xs \<and> [x] \<noteq> [] \<and> c \<notin> set [x] \<and> match_here r xs" by auto
      then show ?thesis by blast
    qed
  next
    assume "\<exists>u t. x # xs = u @ t \<and> u \<noteq> [] \<and> c \<notin> set u \<and> match_here r t"
    then obtain u t where ut: "x # xs = u @ t" "u \<noteq> []" "c \<notin> set u" "match_here r t" by blast
    then obtain u' where u: "u = x # u'" by (cases u) auto
    with ut have xs: "xs = u' @ t" and x: "x \<noteq> c" and u': "c \<notin> set u'" by auto
    show "match_here (NotCharPlus c # r) (x # xs)"
    proof (cases "u' = []")
      case True
      with xs ut x show ?thesis by simp
    next
      case False
      with xs u' ut Cons.IH have "match_here (NotCharPlus c # r) xs" by blast
      with x show ?thesis by simp
    qed
  qed
qed

lemma re_match_email_pattern:
  "re_match email_pattern s =
     (\<exists>a b c r. s = a @ ustr ''@'' @ b @ ustr ''.'' @ c @ r \<and> a \<noteq> [] \<and> b \<noteq> [] \<and> c \<noteq> []
        \<and> of_char (CHR ''@'') \<notin> set a \<and> of_char (CHR ''@'') \<notin> set b \<and> of_char (CHR ''@'') \<notin> set c)"
  unfolding re_match_def email_pattern_def
  by (simp only: match_here_NotCharPlus match_here_Lit match_here.simps(1)) (simp; blast)


section \<open>What each check does to the record\<close>

lemma vulnerabilities_append_vulnerability:
  "vulnerabilities (append_vulnerability msg fd) = vulnerabilities fd @ [msg]"
  by (simp add: append_vulnerability_def)

lemma append_vulnerability_fields:
  "fd_name (append_vulnerability msg fd) = fd_name fd"
  "fd_type (append_vulnerability msg fd) = fd_type fd"
  "fd_autocomplete (append_vulnerability msg fd) = fd_autocomplete fd"
  "fd_required (append_vulnerability msg fd) = fd_required fd"
  "fd_readonly (append_vulnerability msg fd) = fd_readonly fd"
  "fd_disabled (append_vulnerability msg fd) = fd_disabled fd"
  "fd_value (append_vulnerability msg fd) = fd_value fd"
  "fd_placeholder (append_vulnerability msg fd) = fd_placeholder fd"
  by (simp_all add: append_vulnerability_def)

lemma analyze_field_fields:
  "fd_name (analyze_field t) = get t (ustr ''name'') (ustr ''N/A'')"
  "fd_type (analyze_field t) = get t (ustr ''type'') (ustr ''text'')"
  "fd_autocomplete (analyze_field t) = get t (ustr ''autocomplete'') (ustr ''off'')"
  "fd_required (analyze_field t) = has_attr t (ustr ''required'')"
  "fd_readonly (analyze_field t) = has_attr t (ustr ''readonly'')"
  "fd_disabled (analyze_field t) = has_attr t (ustr ''disabled'')"
  "fd_value (analyze_field t) = get t (ustr ''value'') (ustr ''N/A'')"
  "fd_placeholder (analyze_field t) = get t (ustr ''placeholder'') (ustr ''N/A'')"
  by (simp_all add: analyze_field_def check_required_def check_autocomplete_def
      check_validation_def append_vulnerability_fields make_field_data_def)

lemma vulnerabilities_check_validation:
  "vulnerabilities (check_validation fd) = vulnerabilities fd @
     (if fd_type fd = ustr ''email'' \<and> fd_value fd \<noteq> ustr ''N/A'' \<and> \<not> re_match email_pattern (fd_value fd)
      then [ustr ''Potential missing email validation.'']
      else if fd_type fd \<in> {ustr ''number'', ustr ''tel''} \<and> fd_value fd \<noteq> ustr ''N/A'' \<and> \<not> isdigit (fd_value fd)
      then [ustr ''Potential missing numerical validation.''] else [])"
  by (simp add: check_validation_def vulnerabilities_append_vulnerability)

lemma vulnerabilities_check_autocomplete:
  "vulnerabilities (check_autocomplete fd) = vulnerabilities fd @
     (if fd_type fd \<in> {ustr ''password'', ustr ''credit-card'', ustr ''cvv''} \<and> fd_autocomplete fd \<noteq> (ustr ''off'')
      then [ustr ''Autocomplete is enabled for sensitive field of type '' @ ustr [CHR 0x27] @ fd_type fd
                @ ustr [CHR 0x27] @ ustr ''.  This is generally discouraged''] else [])"
  by (simp add: check_autocomplete_def vulnerabilities_append_vulnerability)

lemma vulnerabilities_check_required:
  "vulnerabilities (check_required fd) = vulnerabilities fd @
     (if fd_type fd \<notin> {ustr ''hidden'', ustr ''submit'', ustr ''button''} \<and> \<not> fd_required fd
      then [ustr ''Missing 'required' attribute. Consider adding for important fields''] else [])"
  by (simp add: check_required_def vulnerabilities_append_vulnerability)

lemma check_fields:
  "fd_type (check_validation fd) = fd_type fd"
  "fd_autocomplete (check_validation fd) = fd_autocomplete fd"
  "fd_required (check_validation fd) = fd_required fd"
  "fd_type (check_autocomplete fd) = fd_type fd"
  "fd_required (check_autocomplete fd) = fd_required fd"
  by (simp_all add: check_validation_def check_autocomplete_def append_vulnerability_fields)

lemma vulnerabilities_analyze_field:
  "vulnerabilities (analyze_field t) =
     vulnerabilities (check_validation (make_field_data t))
     @ (if get t (ustr ''type'') (ustr ''text'') \<in> {ustr ''password'', ustr ''credit-card'', ustr ''cvv''}
            \<and> get t (ustr ''autocomplete'') (ustr ''off'') \<noteq> (ustr ''off'')
        then [ustr ''Autocomplete is enabled for sensitive field of type '' @ ustr [CHR 0x27]
                @ get t (ustr ''type'') (ustr ''text'') @ ustr [CHR 0x27] @ ustr ''.  This is generally discouraged'']
        else [])
     @ (if get t (ustr ''type'') (ustr ''text'') \<notin> {ustr ''hidden'', ustr ''submit'', ustr ''button''} \<and> \<not> has_attr t (ustr ''required'')
        then [ustr ''Missing 'required' attribute. Consider adding for important fields''] else [])"
  by (simp add: analyze_field_def vulnerabilities_check_required vulnerabilities_check_autocomplete
      check_fields make_field_data_def)

lemma vulnerabilities_validation:
  "vulnerabilities (check_validation (make_field_data t)) =
     (if get t (ustr ''type'') (ustr ''text'') = ustr ''email'' \<and> get t (ustr ''value'') (ustr ''N/A'') \<noteq> ustr ''N/A''
         \<and> \<not> re_match email_pattern (get t (ustr ''value'') (ustr ''N/A''))
      then [ustr ''Potential missing email validation.'']
      else if get t (ustr ''type'') (ustr ''text'') \<in> {ustr ''number'', ustr ''tel''} \<and> get t (ustr ''value'') (ustr ''N/A'') \<noteq> ustr ''N/A''
         \<and> \<not> isdigit (get t (ustr ''value'') (ustr ''N/A''))
      then [ustr ''Potential missing numerical validation.''] else [])"
  by (simp add: vulnerabilities_check_validation make_field_data_def)

section \<open>The results are the analysed input tags, in document order\<close>

lemma inputs_loop_results:
  "fst (inputs_loop url ts st) = fst st @ map analyze_field ts"
  by (induction ts arbitrary: st) (simp_all add: analyze_input_def Let_def)

lemma forms_loop_results:
  "fst (forms_loop url fs st) = fst st @ map analyze_field (concat (map (find_all (ustr ''input'')) fs))"
  by (induction fs arbitrary: st) (simp_all add: inputs_loop_results)

lemma analyze_form_fields_results:
  "fst (analyze_form_fields parser html_content url lg) =
     map analyze_field (concat (map (find_all (ustr ''input'')) (find_all (ustr ''form'') (parser html_content))))"
  by (simp add: analyze_form_fields_def Let_def forms_loop_results)

section \<open>Digits\<close>

lemma isdigit_Nil: "isdigit [] = False"
  by (simp add: isdigit_def)

lemma all_decimal_digits_isdigit: "all_decimal_digits s \<Longrightarrow> isdigit s"
  by (simp add: all_decimal_digits_def isdigit_def isdigit_char_def list_all_iff)

lemma isdecimal_char_ascii: "48 \<le> c \<Longrightarrow> c \<le> 57 \<Longrightarrow> isdecimal_char c"
  by (simp add: isdecimal_char_def in_ranges_def decimal_ranges_def)


lemma superscript_two_digit: "isdigit_char 178 = True" "isdecimal_char 178 = False"
  by (simp_all add: isdigit_char_def isdecimal_char_def in_ranges_def decimal_ranges_def
      other_digit_ranges_def)

lemma arabic_fullwidth_decimal: "isdecimal_char 0x663 = True" "isdecimal_char 0xFF11 = True"
  by (simp_all add: isdecimal_char_def in_ranges_def decimal_ranges_def)

lemma numeric_rule_aux:
  "(ustr ''Potential missing numerical validation.'' \<in> set (vulnerabilities (analyze_field t))) =
     (ustr ''Potential missing email validation.'' \<notin> set (vulnerabilities (analyze_field t))
      \<and> fd_type (analyze_field t) \<in> {ustr ''number'', ustr ''tel''} \<and> fd_value (analyze_field t) \<noteq> ustr ''N/A''
      \<and> \<not> isdigit (fd_value (analyze_field t)))"
  by (auto simp add: vulnerabilities_analyze_field vulnerabilities_validation analyze_field_fields)

section \<open>The findings of one field\<close>

lemma vulnerabilities_depend_on:
  assumes "attrs t1 (ustr ''type'') = attrs t2 (ustr ''type'')" and "attrs t1 (ustr ''value'') = attrs t2 (ustr ''value'')"
    and "attrs t1 (ustr ''autocomplete'') = attrs t2 (ustr ''autocomplete'')"
    and "attrs t1 (ustr ''required'') = attrs t2 (ustr ''required'')"
  shows "vulnerabilities (analyze_field t1) = vulnerabilities (analyze_field t2)"
proof -
  from assms have "get t1 (ustr ''type'') (ustr ''text'') = get t2 (ustr ''type'') (ustr ''text'')"
    and "get t1 (ustr ''value'') (ustr ''N/A'') = get t2 (ustr ''value'') (ustr ''N/A'')"
    and "get t1 (ustr ''autocomplete'') (ustr ''off'') = get t2 (ustr ''autocomplete'') (ustr ''off'')"
    and "has_attr t1 (ustr ''required'') = has_attr t2 (ustr ''required'')"
    by (simp_all add: get_def has_attr_def)
  then show ?thesis
    by (simp only: vulnerabilities_analyze_field vulnerabilities_validation)
qed

lemma exempt_type_no_findings:
  "fd_type (analyze_field t) \<in> {ustr ''hidden'', ustr ''submit'', ustr ''button''} \<Longrightarrow> vulnerabilities (analyze_field t) = []"
  unfolding analyze_field_fields
  by (elim insertE emptyE) (simp_all add: vulnerabilities_analyze_field vulnerabilities_validation)

lemma findings_at_most_3: "length (vulnerabilities (analyze_field t)) \<le> 3"
  by (simp add: vulnerabilities_analyze_field vulnerabilities_validation)

section \<open>The claims\<close>

text \<open>
  By \<open>analyze_form_fields_results\<close> every record that \<open>analyze_form_fields\<close> returns
  is \<open>analyze_field t\<close> for an input tag \<open>t\<close> of a form of the page; the claims about
  one field are stated for \<open>analyze_field t\<close> with \<open>t\<close> arbitrary.
\<close>

text \<open>
  C1, as amended. The email message is among the findings of a field exactly when the type is
  \<open>email\<close>, the value is not the sentinel \<open>N/A\<close>, and the value does not begin with a
  match of the pattern: it cannot be split into a non-empty run without \<open>@\<close>, an
  \<open>@\<close>, a non-empty run without \<open>@\<close>, a dot, a non-empty run without \<open>@\<close>, and
  any rest. The match is anchored at position 0 and need not reach the end of the value.
  The type and the value of the record are those of the tag, with their defaults.
\<close>

theorem email_rule_anchored:
  "(ustr ''Potential missing email validation.'' \<in> set (vulnerabilities (analyze_field t))) =
     (fd_type (analyze_field t) = ustr ''email'' \<and> fd_value (analyze_field t) \<noteq> ustr ''N/A''
      \<and> \<not> (\<exists>a b c r. fd_value (analyze_field t) = a @ ustr ''@'' @ b @ ustr ''.'' @ c @ r
             \<and> a \<noteq> [] \<and> b \<noteq> [] \<and> c \<noteq> []
             \<and> of_char (CHR ''@'') \<notin> set a \<and> of_char (CHR ''@'') \<notin> set b
             \<and> of_char (CHR ''@'') \<notin> set c))
   \<and> fd_type (analyze_field t) = get t (ustr ''type'') (ustr ''text'')
   \<and> fd_value (analyze_field t) = get t (ustr ''value'') (ustr ''N/A'')"
proof -
  have "(ustr ''Potential missing email validation.'' \<in> set (vulnerabilities (analyze_field t))) =
     (fd_type (analyze_field t) = ustr ''email'' \<and> fd_value (analyze_field t) \<noteq> ustr ''N/A''
      \<and> \<not> re_match email_pattern (fd_value (analyze_field t)))"
    by (simp add: vulnerabilities_analyze_field vulnerabilities_validation analyze_field_fields)
  then show ?thesis by (simp only: re_match_email_pattern analyze_field_fields simp_thms)
qed

text \<open>
  C1 as stated fails: the value \<open>@a@b.c\<close> contains a match of the pattern (from position 1,
  so the unanchored search of the claim finds it), and the program still reports the email
  finding, since no match starts at position 0.
\<close>

theorem email_rule_unanchored_counterexample:
  "fd_type (analyze_field at_sign_first) = ustr ''email''
   \<and> fd_value (analyze_field at_sign_first) = ustr ''@a@b.c''
   \<and> re_search email_pattern (fd_value (analyze_field at_sign_first))
   \<and> ustr ''Potential missing email validation.'' \<in> set (vulnerabilities (analyze_field at_sign_first))"
  by (simp add: vulnerabilities_analyze_field vulnerabilities_validation analyze_field_fields
      at_sign_first_def get_def has_attr_def re_search_def re_match_def email_pattern_def)

text \<open>
  C2, as amended. The numeric message is among the findings exactly when the email rule did
  not trigger, the type is \<open>number\<close> or \<open>tel\<close>, the value is not \<open>N/A\<close>, and
  \<^verbatim>\<open>str.isdigit\<close> rejects the value: the value is empty or has a character that is neither
  a decimal digit (of any script) nor one of the other digit characters, such as the
  superscript digits. The type and the value of the record are those of the tag, with their
  defaults. The empty value triggers the rule, and a value of decimal digits only does not.
\<close>

theorem numeric_rule_isdigit:
  "((ustr ''Potential missing numerical validation.'' \<in> set (vulnerabilities (analyze_field t))) =
     (ustr ''Potential missing email validation.'' \<notin> set (vulnerabilities (analyze_field t))
      \<and> fd_type (analyze_field t) \<in> {ustr ''number'', ustr ''tel''}
      \<and> fd_value (analyze_field t) \<noteq> ustr ''N/A''
      \<and> \<not> isdigit (fd_value (analyze_field t))))
   \<and> fd_type (analyze_field t) = get t (ustr ''type'') (ustr ''text'')
   \<and> fd_value (analyze_field t) = get t (ustr ''value'') (ustr ''N/A'')
   \<and> (fd_type (analyze_field t) \<in> {ustr ''number'', ustr ''tel''} \<and> fd_value (analyze_field t) = []
        \<longrightarrow> ustr ''Potential missing numerical validation.'' \<in> set (vulnerabilities (analyze_field t)))
   \<and> (all_decimal_digits (fd_value (analyze_field t))
        \<longrightarrow> ustr ''Potential missing numerical validation.'' \<notin> set (vulnerabilities (analyze_field t)))"
proof (intro conjI impI)
  show "(ustr ''Potential missing numerical validation.'' \<in> set (vulnerabilities (analyze_field t))) =
     (ustr ''Potential missing email validation.'' \<notin> set (vulnerabilities (analyze_field t))
      \<and> fd_type (analyze_field t) \<in> {ustr ''number'', ustr ''tel''}
      \<and> fd_value (analyze_field t) \<noteq> ustr ''N/A''
      \<and> \<not> isdigit (fd_value (analyze_field t)))"
    by (rule numeric_rule_aux)
next
  show "fd_type (analyze_field t) = get t (ustr ''type'') (ustr ''text'')"
    by (rule analyze_field_fields)
next
  show "fd_value (analyze_field t) = get t (ustr ''value'') (ustr ''N/A'')"
    by (rule analyze_field_fields)
next
  assume "fd_type (analyze_field t) \<in> {ustr ''number'', ustr ''tel''} \<and> fd_value (analyze_field t) = []"
  then have ty: "get t (ustr ''type'') (ustr ''text'') = ustr ''number''
      \<or> get t (ustr ''type'') (ustr ''text'') = ustr ''tel''"
    and v: "get t (ustr ''value'') (ustr ''N/A'') = []"
    by (simp_all add: analyze_field_fields)
  from ty v show "ustr ''Potential missing numerical validation.'' \<in> set (vulnerabilities (analyze_field t))"
    by (elim disjE)
      (simp_all add: vulnerabilities_analyze_field vulnerabilities_validation isdigit_def)
next
  assume "all_decimal_digits (fd_value (analyze_field t))"
  then have "isdigit (fd_value (analyze_field t))" by (rule all_decimal_digits_isdigit)
  with numeric_rule_aux [of t]
  show "ustr ''Potential missing numerical validation.'' \<notin> set (vulnerabilities (analyze_field t))"
    by blast
qed

text \<open>
  The two conditional parts of C2: at the input of type \<open>number\<close> with the empty
  value, at the input of type \<open>tel\<close> with the value \<open>0123\<close>, and at the input of type
  \<open>number\<close> whose value is the Arabic-Indic digit three followed by the fullwidth digit
  one.
\<close>

theorem numeric_rule_isdigit_witness:
  "ustr ''Potential missing numerical validation.'' \<in> set (vulnerabilities (analyze_field empty_number))
   \<and> ustr ''Potential missing numerical validation.'' \<notin> set (vulnerabilities (analyze_field digits_tel))
   \<and> fd_value (analyze_field arabic_fullwidth) = [0x663, 0xFF11]
   \<and> ustr ''Potential missing numerical validation.''
        \<notin> set (vulnerabilities (analyze_field arabic_fullwidth))"
proof -
  have h1: "fd_type (analyze_field empty_number) \<in> {ustr ''number'', ustr ''tel''}
      \<and> fd_value (analyze_field empty_number) = []"
    by (simp add: analyze_field_fields empty_number_def get_def)
  have h2: "all_decimal_digits (fd_value (analyze_field digits_tel))"
    by (simp add: analyze_field_fields digits_tel_def get_def all_decimal_digits_def
        isdecimal_char_ascii)
  have v3: "fd_value (analyze_field arabic_fullwidth) = [0x663, 0xFF11]"
    by (simp add: analyze_field_fields arabic_fullwidth_def get_def)
  have h3: "all_decimal_digits (fd_value (analyze_field arabic_fullwidth))"
    unfolding v3 by (simp add: all_decimal_digits_def arabic_fullwidth_decimal)
  from numeric_rule_isdigit [of empty_number] h1
  have a: "ustr ''Potential missing numerical validation.''
      \<in> set (vulnerabilities (analyze_field empty_number))" by blast
  from numeric_rule_isdigit [of digits_tel] h2
  have b: "ustr ''Potential missing numerical validation.''
      \<notin> set (vulnerabilities (analyze_field digits_tel))" by blast
  from numeric_rule_isdigit [of arabic_fullwidth] h3
  have c: "ustr ''Potential missing numerical validation.''
      \<notin> set (vulnerabilities (analyze_field arabic_fullwidth))" by blast
  from a b v3 c show ?thesis by (intro conjI)
qed

text \<open>
  C2 as stated fails: the value made of the character superscript two is not composed of
  decimal digit characters (it is none of \<open>0\<close> to \<open>9\<close>, and no decimal digit of any
  script), the type is \<open>number\<close>, the value is not \<open>N/A\<close>, the email rule did not
  trigger, and the program reports no numeric finding, since \<^verbatim>\<open>isdigit\<close> accepts the
  character.
\<close>

theorem numeric_rule_decimal_counterexample:
  "fd_type (analyze_field superscript_two) = ustr ''number''
   \<and> fd_value (analyze_field superscript_two) = [0xB2]
   \<and> fd_value (analyze_field superscript_two) \<noteq> ustr ''N/A''
   \<and> 0xB2 \<notin> set (ustr ''0123456789'')
   \<and> \<not> all_decimal_digits (fd_value (analyze_field superscript_two))
   \<and> ustr ''Potential missing email validation.'' \<notin> set (vulnerabilities (analyze_field superscript_two))
   \<and> ustr ''Potential missing numerical validation.'' \<notin> set (vulnerabilities (analyze_field superscript_two))"
  by (simp add: vulnerabilities_analyze_field vulnerabilities_validation analyze_field_fields
      superscript_two_def get_def has_attr_def all_decimal_digits_def isdigit_def
      superscript_two_digit)

text \<open>
  C3. The autocomplete message, with the type of the tag (\<open>text\<close> when the tag has none)
  between the quotes and two spaces before \<open>This\<close>, is among the findings of a field
  exactly when that type is one of \<open>password\<close>, \<open>credit-card\<close>, \<open>cvv\<close> and the
  autocomplete value of the tag (\<open>off\<close> when the tag has none) is not \<open>off\<close>; it is then
  in the list once. The type and the autocomplete value of the record are those of the tag.
  Any tag with type \<open>password\<close>, autocomplete \<open>on\<close> and a \<open>required\<close> attribute gets
  exactly the message for \<open>password\<close>.
\<close>

theorem autocomplete_rule_iff:
  "((ustr ''Autocomplete is enabled for sensitive field of type '' @ ustr [CHR 0x27]
        @ get t (ustr ''type'') (ustr ''text'') @ ustr [CHR 0x27]
        @ ustr ''.  This is generally discouraged'')
      \<in> set (vulnerabilities (analyze_field t))) =
     (get t (ustr ''type'') (ustr ''text'') \<in> {ustr ''password'', ustr ''credit-card'', ustr ''cvv''}
      \<and> get t (ustr ''autocomplete'') (ustr ''off'') \<noteq> ustr ''off'')
   \<and> count_list (vulnerabilities (analyze_field t))
        (ustr ''Autocomplete is enabled for sensitive field of type '' @ ustr [CHR 0x27]
          @ get t (ustr ''type'') (ustr ''text'') @ ustr [CHR 0x27]
          @ ustr ''.  This is generally discouraged'') =
      (if get t (ustr ''type'') (ustr ''text'') \<in> {ustr ''password'', ustr ''credit-card'', ustr ''cvv''}
          \<and> get t (ustr ''autocomplete'') (ustr ''off'') \<noteq> ustr ''off'' then 1 else 0)
   \<and> fd_type (analyze_field t) = get t (ustr ''type'') (ustr ''text'')
   \<and> fd_autocomplete (analyze_field t) = get t (ustr ''autocomplete'') (ustr ''off'')
   \<and> vulnerabilities (analyze_field
        (Tag n (a(ustr ''type'' \<mapsto> ustr ''password'', ustr ''autocomplete'' \<mapsto> ustr ''on'',
                  ustr ''required'' \<mapsto> v)) cs)) =
      [ustr ''Autocomplete is enabled for sensitive field of type 'password'.  This is generally discouraged'']"
proof (intro conjI)
  show "((ustr ''Autocomplete is enabled for sensitive field of type '' @ ustr [CHR 0x27]
        @ get t (ustr ''type'') (ustr ''text'') @ ustr [CHR 0x27]
        @ ustr ''.  This is generally discouraged'')
      \<in> set (vulnerabilities (analyze_field t))) =
     (get t (ustr ''type'') (ustr ''text'') \<in> {ustr ''password'', ustr ''credit-card'', ustr ''cvv''}
      \<and> get t (ustr ''autocomplete'') (ustr ''off'') \<noteq> ustr ''off'')"
    by (simp add: vulnerabilities_analyze_field vulnerabilities_validation)
  show "count_list (vulnerabilities (analyze_field t))
        (ustr ''Autocomplete is enabled for sensitive field of type '' @ ustr [CHR 0x27]
          @ get t (ustr ''type'') (ustr ''text'') @ ustr [CHR 0x27]
          @ ustr ''.  This is generally discouraged'') =
      (if get t (ustr ''type'') (ustr ''text'') \<in> {ustr ''password'', ustr ''credit-card'', ustr ''cvv''}
          \<and> get t (ustr ''autocomplete'') (ustr ''off'') \<noteq> ustr ''off'' then 1 else 0)"
    by (simp add: vulnerabilities_analyze_field vulnerabilities_validation)
  show "fd_type (analyze_field t) = get t (ustr ''type'') (ustr ''text'')"
    by (rule analyze_field_fields)
  show "fd_autocomplete (analyze_field t) = get t (ustr ''autocomplete'') (ustr ''off'')"
    by (rule analyze_field_fields)
  show "vulnerabilities (analyze_field
        (Tag n (a(ustr ''type'' \<mapsto> ustr ''password'', ustr ''autocomplete'' \<mapsto> ustr ''on'',
                  ustr ''required'' \<mapsto> v)) cs)) =
      [ustr ''Autocomplete is enabled for sensitive field of type 'password'.  This is generally discouraged'']"
    by (simp add: vulnerabilities_analyze_field vulnerabilities_validation get_def has_attr_def)
qed



text \<open>
  C6. In the record of an input tag, \<open>name\<close>, \<open>value\<close> and \<open>placeholder\<close> are
  \<open>N/A\<close> when the attribute is absent, \<open>type\<close> is \<open>text\<close>, \<open>autocomplete\<close> is
  \<open>off\<close> (and each is the value of the attribute when it is present); \<open>required\<close>,
  \<open>readonly\<close> and \<open>disabled\<close> are true exactly when the attribute is among the
  attributes of the tag, whatever its value.
\<close>

theorem field_defaults:
  "fd_name (analyze_field (Tag n a cs)) = (case a (ustr ''name'') of None \<Rightarrow> (ustr ''N/A'') | Some v \<Rightarrow> v)
   \<and> fd_value (analyze_field (Tag n a cs)) = (case a (ustr ''value'') of None \<Rightarrow> (ustr ''N/A'') | Some v \<Rightarrow> v)
   \<and> fd_placeholder (analyze_field (Tag n a cs)) =
       (case a (ustr ''placeholder'') of None \<Rightarrow> (ustr ''N/A'') | Some v \<Rightarrow> v)
   \<and> fd_type (analyze_field (Tag n a cs)) = (case a (ustr ''type'') of None \<Rightarrow> (ustr ''text'') | Some v \<Rightarrow> v)
   \<and> fd_autocomplete (analyze_field (Tag n a cs)) =
       (case a (ustr ''autocomplete'') of None \<Rightarrow> (ustr ''off'') | Some v \<Rightarrow> v)
   \<and> fd_required (analyze_field (Tag n a cs)) = (ustr ''required'' \<in> dom a)
   \<and> fd_readonly (analyze_field (Tag n a cs)) = (ustr ''readonly'' \<in> dom a)
   \<and> fd_disabled (analyze_field (Tag n a cs)) = (ustr ''disabled'' \<in> dom a)"
  by (simp add: analyze_field_fields get_def has_attr_def dom_def split: option.split)

text \<open>
  C7. When the page has no form, \<open>analyze_form_fields\<close> returns the empty list and
  adds one record to the log: a warning whose text ends with the URL. The function of the
  model has no error value, and this branch calls nothing that could raise.
\<close>

theorem no_forms_warning:
  "find_all (ustr ''form'') (parser html_content) = [] \<Longrightarrow>
   analyze_form_fields parser html_content url lg = ([], lg @ [(WARNING, ustr ''No forms found on '' @ url)])"
  by (simp add: analyze_form_fields_def warning_def)

text \<open>
  C7 at a page without a form: the input outside any form is not analysed.
\<close>

theorem no_forms_warning_witness:
  "find_all (ustr ''form'') page_without_form = []
   \<and> analyze_form_fields (\<lambda>h. page_without_form) (ustr ''<p>hello<input type=email></p>'') (ustr ''http://a.test'') [] =
       ([], [(WARNING, ustr ''No forms found on http://a.test'')])"
proof -
  have h: "find_all (ustr ''form'') ((\<lambda>h. page_without_form) (ustr ''<p>hello<input type=email></p>'')) = []"
    by (simp add: find_all_def page_without_form_def)
  from no_forms_warning [where parser = "\<lambda>h. page_without_form"
      and html_content = "ustr ''<p>hello<input type=email></p>''" and url = "ustr ''http://a.test''" and lg = "[]"] h
  show ?thesis by simp
qed

text \<open>
  C9. Two tags whose attributes agree everywhere except on \<open>readonly\<close>, \<open>disabled\<close>,
  \<open>name\<close> and \<open>placeholder\<close> get the same findings; these four attributes are recorded
  in the record.
\<close>

theorem findings_ignore_other_attributes:
  assumes "\<forall>k. k \<notin> {ustr ''readonly'', ustr ''disabled'', ustr ''name'', ustr ''placeholder''} \<longrightarrow> attrs t1 k = attrs t2 k"
  shows "vulnerabilities (analyze_field t1) = vulnerabilities (analyze_field t2)
    \<and> fd_readonly (analyze_field t1) = has_attr t1 (ustr ''readonly'')
    \<and> fd_disabled (analyze_field t1) = has_attr t1 (ustr ''disabled'')
    \<and> fd_name (analyze_field t1) = get t1 (ustr ''name'') (ustr ''N/A'')
    \<and> fd_placeholder (analyze_field t1) = get t1 (ustr ''placeholder'') (ustr ''N/A'')"
proof -
  have ty: "attrs t1 (ustr ''type'') = attrs t2 (ustr ''type'')"
    using assms [rule_format, of "ustr ''type''"] by simp
  have va: "attrs t1 (ustr ''value'') = attrs t2 (ustr ''value'')"
    using assms [rule_format, of "ustr ''value''"] by simp
  have au: "attrs t1 (ustr ''autocomplete'') = attrs t2 (ustr ''autocomplete'')"
    using assms [rule_format, of "ustr ''autocomplete''"] by simp
  have re: "attrs t1 (ustr ''required'') = attrs t2 (ustr ''required'')"
    using assms [rule_format, of "ustr ''required''"] by simp
  from ty va au re
  have "vulnerabilities (analyze_field t1) = vulnerabilities (analyze_field t2)"
    by (rule vulnerabilities_depend_on)
  then show ?thesis by (simp add: analyze_field_fields)
qed

text \<open>
  C9 at two email inputs with different names, one of them read-only, disabled and
  with a placeholder.
\<close>

theorem findings_ignore_other_attributes_witness:
  "vulnerabilities (analyze_field plain_email) = vulnerabilities (analyze_field decorated_email)
   \<and> fd_name (analyze_field plain_email) = ustr ''a'' \<and> fd_name (analyze_field decorated_email) = ustr ''b''
   \<and> \<not> fd_readonly (analyze_field plain_email) \<and> fd_readonly (analyze_field decorated_email)"
proof -
  have h: "\<forall>k. k \<notin> {ustr ''readonly'', ustr ''disabled'', ustr ''name'', ustr ''placeholder''}
      \<longrightarrow> attrs plain_email k = attrs decorated_email k"
    by (simp add: plain_email_def decorated_email_def)
  have "fd_name (analyze_field plain_email) = ustr ''a'' \<and> fd_name (analyze_field decorated_email) = ustr ''b''
   \<and> \<not> fd_readonly (analyze_field plain_email) \<and> fd_readonly (analyze_field decorated_email)"
    by (simp add: analyze_field_fields plain_email_def decorated_email_def get_def has_attr_def)
  with findings_ignore_other_attributes [OF h] show ?thesis by blast
qed

text \<open>
  C10. Every returned record whose type is \<open>hidden\<close>, \<open>submit\<close> or \<open>button\<close> has
  no findings, and every returned record has at most three findings.
\<close>

theorem exempt_types_have_no_findings:
  "\<forall>fd \<in> set (fst (analyze_form_fields parser html_content url lg)).
     (fd_type fd \<in> {ustr ''hidden'', ustr ''submit'', ustr ''button''} \<longrightarrow> vulnerabilities fd = [])
     \<and> length (vulnerabilities fd) \<le> 3"
  unfolding analyze_form_fields_results
  using exempt_type_no_findings findings_at_most_3 by (simp only: set_map ball_simps) blast

text \<open>
  C10 at a page whose form holds one hidden input with a value, with autocomplete
  \<open>on\<close> and without \<open>required\<close>.
\<close>

theorem exempt_types_have_no_findings_witness:
  "map fd_type (fst (analyze_form_fields (\<lambda>h. hidden_page) [] (ustr ''http://a.test'') [])) = [ustr ''hidden'']
   \<and> map fd_autocomplete (fst (analyze_form_fields (\<lambda>h. hidden_page) [] (ustr ''http://a.test'') [])) = [ustr ''on'']
   \<and> map fd_required (fst (analyze_form_fields (\<lambda>h. hidden_page) [] (ustr ''http://a.test'') [])) = [False]
   \<and> map vulnerabilities (fst (analyze_form_fields (\<lambda>h. hidden_page) [] (ustr ''http://a.test'') [])) = [[]]"
proof -
  have r: "fst (analyze_form_fields (\<lambda>h. hidden_page) [] (ustr ''http://a.test'') []) =
      [analyze_field (Tag (ustr ''input'') [ustr ''type'' \<mapsto> ustr ''hidden'', ustr ''value'' \<mapsto> ustr ''x'', ustr ''autocomplete'' \<mapsto> ustr ''on''] [])]"
    by (simp add: analyze_form_fields_results find_all_def hidden_page_def)
  from exempt_types_have_no_findings [of "\<lambda>h. hidden_page" "[]" "ustr ''http://a.test''" "[]"]
  show ?thesis unfolding r by (simp add: analyze_field_fields get_def has_attr_def)
qed

end
